theory Spec2Isabelle
  imports Main
begin

section \<open>Python values, exceptions and strings\<close>

text \<open>
  A Python \<open>str\<close> is modelled as the list of its code points, for code points below 256
  (an Isabelle \<open>char\<close>). The two collaborators of the resolver are typed
  \<open>get_ffmpeg_exe() -> str\<close> and \<open>shutil.which(cmd) -> str | None\<close>, so the values
  that flow through \<open>get_ffmpeg_path\<close> are \<open>None\<close> or a string.
\<close>

datatype pyval = PyNone | PyStr string

text \<open>Python truthiness, as tested by \<open>if path:\<close> and \<open>if system_ffmpeg:\<close>.\<close>

fun truthy :: "pyval \<Rightarrow> bool" where
  "truthy PyNone = False"
| "truthy (PyStr s) = (s \<noteq> [])"

text \<open>\<open>str(v)\<close>, as \<open>print\<close> applies it to its argument.\<close>

fun py_str :: "pyval \<Rightarrow> string" where
  "py_str PyNone = ''None''"
| "py_str (PyStr s) = s"

text \<open>
  Exceptions carry their message. An \<open>except C\<close> clause also catches the subclasses of
  \<open>C\<close>, so \<open>ImportError\<close> stands for itself and \<open>ModuleNotFoundError\<close>, and
  \<open>RuntimeError\<close> for itself and its subclasses; \<open>OtherException cls msg\<close> is an exception
  of any other class.
\<close>

datatype exn = ImportError string | RuntimeError string | OtherException string string

fun is_ImportError :: "exn \<Rightarrow> bool" where
  "is_ImportError (ImportError m) = True"
| "is_ImportError e = False"

fun exn_str :: "exn \<Rightarrow> string" where
  "exn_str (ImportError m) = m"
| "exn_str (RuntimeError m) = m"
| "exn_str (OtherException c m) = m"

text \<open>\<open>s.startswith(p)\<close>.\<close>

fun startswith :: "string \<Rightarrow> string \<Rightarrow> bool" where
  "startswith s [] = True"
| "startswith [] (p # ps) = False"
| "startswith (c # cs) (p # ps) = (c = p \<and> startswith cs ps)"

text \<open>\<open>sub in s\<close> on strings: \<open>sub\<close> occurs in \<open>s\<close> as a contiguous substring.\<close>

fun py_in :: "string \<Rightarrow> string \<Rightarrow> bool" where
  "py_in sub [] = (sub = [])"
| "py_in sub (c # cs) = (startswith (c # cs) sub \<or> py_in sub cs)"

text \<open>
  \<open>s.lower()\<close> on code points below 256: the ASCII capitals and the Latin-1 capitals
  (0xC0 to 0xDE, without the multiplication sign 0xD7) move up by 32.
\<close>

definition lower_char :: "char \<Rightarrow> char" where
  "lower_char c =
     (let n = (of_char c :: nat) in
      if 65 \<le> n \<and> n \<le> 90 then char_of (n + 32)
      else if 192 \<le> n \<and> n \<le> 222 \<and> n \<noteq> 215 then char_of (n + 32)
      else c)"

definition lower :: "string \<Rightarrow> string" where
  "lower s = map lower_char s"

definition newline :: char where
  "newline = CHR 0x0A"

text \<open>\<open>s.endswith(p)\<close>.\<close>

definition endswith :: "string \<Rightarrow> string \<Rightarrow> bool" where
  "endswith s p = startswith (rev s) (rev p)"

text \<open>\<open>c.isspace()\<close> on code points below 256.\<close>

definition is_space :: "char \<Rightarrow> bool" where
  "is_space c = ((of_char c :: nat) \<in> {9, 10, 11, 12, 13, 28, 29, 30, 31, 32, 133, 160})"

text \<open>
  \<open>s.strip(chars)\<close> removes the leading and the trailing characters that are in
  \<open>chars\<close>; \<open>s.strip()\<close> removes white space; \<open>s.strip("'\"")\<close> removes the two quote
  characters.
\<close>

definition strip_chars :: "(char \<Rightarrow> bool) \<Rightarrow> string \<Rightarrow> string" where
  "strip_chars P s = rev (dropWhile P (rev (dropWhile P s)))"

definition strip :: "string \<Rightarrow> string" where
  "strip s = strip_chars is_space s"

definition strip_quotes :: "string \<Rightarrow> string" where
  "strip_quotes s = strip_chars (\<lambda>c. c = CHR 0x27 \<or> c = CHR 0x22) s"

section \<open>The resolver: \<open>get_ffmpeg_path.py\<close>\<close>

text \<open>
  The function takes no argument; it reads the process environment. The world holds what
  it reads and a trace of what it does:
  \<^item> \<open>imageio_import\<close>: what \<open>from imageio_ffmpeg import get_ffmpeg_exe\<close> raises, if anything;
  \<^item> \<open>get_ffmpeg_exe\<close>: what the call \<open>get_ffmpeg_exe()\<close> returns or raises;
  \<^item> \<open>which\<close>: \<open>shutil.which\<close>;
  \<^item> \<open>trace\<close>: the imports, calls and prints performed so far, oldest first.
\<close>

datatype event =
    Import string
  | Call_get_ffmpeg_exe
  | Call_which string
  | Print_stdout string
  | Print_stderr string

record world =
  imageio_import :: "exn option"
  get_ffmpeg_exe :: "exn + pyval"
  which :: "string \<Rightarrow> pyval"
  trace :: "event list"

definition log :: "event \<Rightarrow> world \<Rightarrow> world" where
  "log ev w = w\<lparr>trace := trace w @ [ev]\<rparr>"

definition not_found_message :: string where
  "not_found_message =
     ''FFmpeg not found. Install with: pip install imageio-ffmpeg'' @ [newline] @
     ''Or install ffmpeg system-wide: https://ffmpeg.org/download.html''"

text \<open>
  Lines 42 to 51 of \<open>get_ffmpeg_path\<close>, the part after the \<open>try\<close> statement:
  \<open>import shutil\<close>, \<open>shutil.which("ffmpeg")\<close>, and the final \<open>raise\<close>.
\<close>

definition system_fallback :: "world \<Rightarrow> (exn + pyval) \<times> world" where
  "system_fallback w =
     (let w1 = log (Import ''shutil'') w;
          w2 = log (Call_which ''ffmpeg'') w1;
          system_ffmpeg = which w2 ''ffmpeg''
      in if truthy system_ffmpeg then (Inr system_ffmpeg, w2)
         else (Inl (RuntimeError not_found_message), w2))"

text \<open>
  \<open>get_ffmpeg_path\<close>. The \<open>try\<close> block covers the import and the call; its only handler
  is \<open>except ImportError: pass\<close>, so any other exception leaves the function.
\<close>

definition get_ffmpeg_path :: "world \<Rightarrow> (exn + pyval) \<times> world" where
  "get_ffmpeg_path w =
     (let w1 = log (Import ''imageio_ffmpeg'') w in
      case imageio_import w1 of
        Some e \<Rightarrow> if is_ImportError e then system_fallback w1 else (Inl e, w1)
      | None \<Rightarrow>
          (let w2 = log Call_get_ffmpeg_exe w1 in
           case get_ffmpeg_exe w2 of
             Inl e \<Rightarrow> if is_ImportError e then system_fallback w2 else (Inl e, w2)
           | Inr path \<Rightarrow> if truthy path then (Inr path, w2) else system_fallback w2))"

text \<open>
  \<open>main\<close>: \<open>print\<close> writes \<open>str\<close> of its argument and a newline. The handler is
  \<open>except RuntimeError\<close>; another exception leaves \<open>main\<close>.
\<close>

definition main :: "world \<Rightarrow> (exn + int) \<times> world" where
  "main w =
     (case get_ffmpeg_path w of
        (Inr path, w1) \<Rightarrow> (Inr 0, log (Print_stdout (py_str path @ [newline])) w1)
      | (Inl (RuntimeError m), w1) \<Rightarrow>
          (Inr 1, log (Print_stderr (exn_str (RuntimeError m) @ [newline])) w1)
      | (Inl e, w1) \<Rightarrow> (Inl e, w1))"

text \<open>The events a call appended to the trace.\<close>

definition consulted :: "world \<Rightarrow> world \<Rightarrow> event list" where
  "consulted w w' = drop (length (trace w)) (trace w')"

text \<open>
  The two ways strategy 1 yields nothing. \<open>provider_unavailable\<close>: the provider signals
  that it is unavailable, an \<open>ImportError\<close> raised by the import statement or, inside the
  same \<open>try\<close> block, by the call. \<open>provider_no_path\<close>: the provider is installed and
  \<open>get_ffmpeg_exe()\<close> returns a falsy value (\<open>None\<close> or the empty string).
\<close>

definition provider_unavailable :: "world \<Rightarrow> bool" where
  "provider_unavailable w =
     (case imageio_import w of
        Some e \<Rightarrow> is_ImportError e
      | None \<Rightarrow> (case get_ffmpeg_exe w of Inl e \<Rightarrow> is_ImportError e | Inr v \<Rightarrow> False))"

definition provider_no_path :: "world \<Rightarrow> bool" where
  "provider_no_path w =
     (case imageio_import w of
        Some e \<Rightarrow> False
      | None \<Rightarrow> (case get_ffmpeg_exe w of Inl e \<Rightarrow> False | Inr v \<Rightarrow> \<not> truthy v))"




text \<open>Worlds used to run the resolver on concrete environments.\<close>

definition world_provider :: world where
  "world_provider =
     \<lparr>imageio_import = None, get_ffmpeg_exe = Inr (PyStr ''/fake/path/ffmpeg''),
      which = (\<lambda>n. PyStr ''/usr/bin/ffmpeg''), trace = []\<rparr>"

definition world_system :: world where
  "world_system =
     \<lparr>imageio_import = Some (ImportError ''No module named imageio_ffmpeg''),
      get_ffmpeg_exe = Inl (ImportError ''No module named imageio_ffmpeg''),
      which = (\<lambda>n. if n = ''ffmpeg'' then PyStr ''/usr/bin/ffmpeg'' else PyNone), trace = []\<rparr>"

definition world_nothing :: world where
  "world_nothing =
     \<lparr>imageio_import = Some (ImportError ''No module named imageio_ffmpeg''),
      get_ffmpeg_exe = Inl (ImportError ''No module named imageio_ffmpeg''),
      which = (\<lambda>n. PyNone), trace = []\<rparr>"



section \<open>The markdown validation suites\<close>

text \<open>A test passes, or stops at its first failing \<open>assert\<close> with that assertion's message.\<close>

datatype outcome = Passed | AssertionError string | TypeError

subsection \<open>\<open>test_skill_instructions.py\<close> (media-assistant)\<close>

text \<open>
  The character class \<open>[a-z0-9\-]\<close>, and \<open>re.match(r"^[a-z0-9\-]+$", name)\<close>. Without
  \<open>re.MULTILINE\<close>, \<open>$\<close> matches at the end of the string and also just before a newline
  that is the last character of the string.
\<close>

definition name_char :: "char \<Rightarrow> bool" where
  "name_char c =
     (let n = (of_char c :: nat) in
      (97 \<le> n \<and> n \<le> 122) \<or> (48 \<le> n \<and> n \<le> 57) \<or> c = CHR ''-'')"

definition name_pattern_match :: "string \<Rightarrow> bool" where
  "name_pattern_match name =
     (let body = (if name \<noteq> [] \<and> last name = newline then butlast name else name)
      in body \<noteq> [] \<and> list_all name_char body)"

text \<open>
  \<open>test_skill_name_format\<close>. Its input is the outcome of
  \<open>re.search(r"^name:\s*(.+)$", content, re.MULTILINE)\<close>: \<open>None\<close>, or the text of group 1.
\<close>

definition test_skill_name_format :: "string option \<Rightarrow> outcome" where
  "test_skill_name_format m =
     (case m of
        None \<Rightarrow> AssertionError []
      | Some g \<Rightarrow>
          (let name = strip_quotes (strip g) in
           if name \<noteq> lower name then AssertionError ''Name must be lowercase''
           else if py_in ''--'' name
             then AssertionError ''Name must not contain consecutive hyphens''
           else if startswith name ''-'' then AssertionError ''Name must not start with hyphen''
           else if endswith name ''-'' then AssertionError ''Name must not end with hyphen''
           else if \<not> name_pattern_match name
             then AssertionError ''Name must contain only a-z, 0-9, hyphens''
           else Passed))"

text \<open>
  \<open>test_skill_description_non_empty\<close>. Its input is the outcome of
  \<open>re.search(r"^description:\s*(.+)$", content, re.MULTILINE)\<close>.
\<close>

definition test_skill_description_non_empty :: "string option \<Rightarrow> outcome" where
  "test_skill_description_non_empty m =
     (case m of
        None \<Rightarrow> AssertionError ''Could not find description field''
      | Some g \<Rightarrow>
          (let desc = strip_quotes (strip g) in
           if \<not> length desc > 0 then AssertionError ''Description must not be empty''
           else if \<not> length desc \<le> 1024
             then AssertionError ''Description must be max 1024 characters''
           else Passed))"

text \<open>
  The name format in the words of the specification: lowercase, hyphenated, no
  consecutive hyphens. Lowercase: the name is its own \<open>lower()\<close>. Hyphenated: the name is
  written with the characters of hyphenated words, lowercase letters, digits and hyphens.
  No consecutive hyphens: \<open>--\<close> does not occur.
\<close>

definition spec_name_format :: "string \<Rightarrow> bool" where
  "spec_name_format name =
     (name = lower name \<and> list_all name_char name \<and> \<not> py_in ''--'' name)"

subsection \<open>\<open>test_skill_frontmatter.py\<close> (rust-ffmpeg)\<close>

text \<open>
  The fixture \<open>skill_frontmatter\<close> is the dictionary \<open>yaml.safe_load\<close> returns. A YAML
  value is a string, a sequence, a mapping, or a scalar without length (null, a boolean,
  a number, a date). \<open>len\<close> of the last raises \<open>TypeError\<close>.
\<close>

datatype yaml = YStr string | YSeq "yaml list" | YMap "(yaml \<times> yaml) list" | YScalar

fun py_len :: "yaml \<Rightarrow> nat option" where
  "py_len (YStr s) = Some (length s)"
| "py_len (YSeq xs) = Some (length xs)"
| "py_len (YMap kvs) = Some (length kvs)"
| "py_len YScalar = None"

definition test_description_length_reasonable :: "(string \<rightharpoonup> yaml) \<Rightarrow> outcome" where
  "test_description_length_reasonable skill_frontmatter =
     (let desc = (case skill_frontmatter ''description'' of Some v \<Rightarrow> v | None \<Rightarrow> YStr [])
      in case py_len desc of
           None \<Rightarrow> TypeError
         | Some n \<Rightarrow>
             if n < 4096 then Passed
             else AssertionError ''Description exceeds 4096 characters'')"

subsection \<open>\<open>test_links.py\<close> (rust-ffmpeg)\<close>

text \<open>
  \<open>LINK_PATTERN\<close> is \<open>\[([^\]]*)\]\(([^\)#]+)(?:#.*)?\)\<close>. \<open>match_link s\<close> matches it at
  the start of \<open>s\<close> and gives group 1, group 2 and the input left after the match.
  Group 1 is the longest run without \<open>]\<close>, and group 2 the longest run without \<open>)\<close> and
  \<open>#\<close>: a shorter run is followed by a character of the run, where the pattern needs
  \<open>]\<close>, \<open>#\<close> or \<open>)\<close>. After \<open>#\<close>, the greedy \<open>.*\<close> runs to the end of the line and
  gives back characters until \<open>\)\<close> matches, so the match ends at the last \<open>)\<close> of the
  line; \<open>last_close\<close> counts the characters up to and including it.
\<close>

fun last_close :: "string \<Rightarrow> nat option" where
  "last_close [] = None"
| "last_close (c # cs) =
     (case last_close cs of
        Some n \<Rightarrow> Some (Suc n)
      | None \<Rightarrow> if c = CHR 0x29 then Some 1 else None)"

definition match_link :: "string \<Rightarrow> (string \<times> string \<times> string) option" where
  "match_link s =
     (case s of
        [] \<Rightarrow> None
      | c # r1 \<Rightarrow>
          if c \<noteq> CHR ''['' then None
          else
            let text = takeWhile (\<lambda>x. x \<noteq> CHR '']'') r1;
                r2 = dropWhile (\<lambda>x. x \<noteq> CHR '']'') r1
            in if \<not> startswith r2 [CHR '']'', CHR 0x28] then None
               else
                 let r3 = drop 2 r2;
                     path = takeWhile (\<lambda>x. x \<noteq> CHR 0x29 \<and> x \<noteq> CHR ''#'') r3;
                     r4 = dropWhile (\<lambda>x. x \<noteq> CHR 0x29 \<and> x \<noteq> CHR ''#'') r3
                 in if path = [] then None
                    else (case r4 of
                            [] \<Rightarrow> None
                          | d # r5 \<Rightarrow>
                              if d = CHR 0x29 then Some (text, path, r5)
                              else (case last_close (takeWhile (\<lambda>x. x \<noteq> newline) r5) of
                                      None \<Rightarrow> None
                                    | Some n \<Rightarrow> Some (text, path, drop n r5))))"

lemma match_link_shorter:
  assumes "match_link s = Some (t, p, rest)"
  shows "length rest < length s"
proof (cases s)
  case Nil
  with assms show ?thesis by (simp add: match_link_def)
next
  case (Cons c r1)
  define r2 where "r2 = dropWhile (\<lambda>x. x \<noteq> CHR '']'') r1"
  define r4 where "r4 = dropWhile (\<lambda>x. x \<noteq> CHR 0x29 \<and> x \<noteq> CHR ''#'') (drop 2 r2)"
  have "length r2 \<le> length r1"
    unfolding r2_def by (rule length_dropWhile_le)
  moreover have "length r4 \<le> length (drop 2 r2)"
    unfolding r4_def by (rule length_dropWhile_le)
  ultimately have r4: "length r4 \<le> length r1" by simp
  from assms Cons obtain d r5 where d: "r4 = d # r5" and "rest = r5 \<or> (\<exists>n. rest = drop n r5)"
    by (auto simp: match_link_def Let_def r2_def r4_def
             split: if_splits list.splits option.splits)
  then have "length rest \<le> length r5" by auto
  with d r4 Cons show ?thesis by simp
qed

text \<open>
  \<open>LINK_PATTERN.finditer(content)\<close>: the matches from left to right, each search starting
  where the previous match ended; the pairs are groups 1 and 2.
\<close>

function finditer :: "string \<Rightarrow> (string \<times> string) list" where
  "finditer [] = []"
| "finditer (c # cs) =
     (case match_link (c # cs) of
        Some (t, p, rest) \<Rightarrow> (t, p) # finditer rest
      | None \<Rightarrow> finditer cs)"
  by pat_completeness auto
termination
  by (relation "measure length") (auto dest: match_link_shorter)

text \<open>
  The file system and \<open>pathlib\<close>, as the link checker uses them: \<open>Path.exists\<close>,
  \<open>Path.read_text\<close>, \<open>Path.rglob("*.md")\<close>, \<open>Path.resolve\<close>, the operator \<open>/\<close> and
  \<open>Path.parent\<close>.
\<close>

type_synonym path = string

record filesystem =
  path_exists :: "path \<Rightarrow> bool"
  read_text :: "path \<Rightarrow> string"
  rglob_md :: "path \<Rightarrow> path list"
  resolve :: "path \<Rightarrow> path"
  joinpath :: "path \<Rightarrow> string \<Rightarrow> path"
  parent :: "path \<Rightarrow> path"

definition is_external :: "string \<Rightarrow> bool" where
  "is_external raw_path =
     (startswith raw_path ''http://'' \<or> startswith raw_path ''https://''
      \<or> startswith raw_path ''mailto:'')"

text \<open>The loop of \<open>_extract_internal_links\<close> over the matches.\<close>

fun extract_loop :: "filesystem \<Rightarrow> path \<Rightarrow> (string \<times> string) list \<Rightarrow> (string \<times> path) list" where
  "extract_loop fs base_dir [] = []"
| "extract_loop fs base_dir ((text, group2) # ms) =
     (let raw_path = strip group2 in
      if raw_path = [] then extract_loop fs base_dir ms
      else if is_external raw_path then extract_loop fs base_dir ms
      else (raw_path, resolve fs (joinpath fs base_dir raw_path)) # extract_loop fs base_dir ms)"

definition extract_internal_links :: "filesystem \<Rightarrow> string \<Rightarrow> path \<Rightarrow> (string \<times> path) list" where
  "extract_internal_links fs content base_dir = extract_loop fs base_dir (finditer content)"

definition collect_all_md_files :: "filesystem \<Rightarrow> path \<Rightarrow> path list" where
  "collect_all_md_files fs skill_root =
     (let files = (if path_exists fs (joinpath fs skill_root ''SKILL.md'')
                   then [joinpath fs skill_root ''SKILL.md''] else []);
          refs = joinpath fs skill_root ''references''
      in if path_exists fs refs then files @ rglob_md fs refs else files)"

text \<open>The two nested loops of \<open>_find_broken_links\<close>.\<close>

fun broken_in_file :: "filesystem \<Rightarrow> path \<Rightarrow> (string \<times> path) list \<Rightarrow> (path \<times> string \<times> path) list" where
  "broken_in_file fs md_file [] = []"
| "broken_in_file fs md_file ((raw_path, resolved) # ls) =
     (if \<not> path_exists fs resolved then (md_file, raw_path, resolved) # broken_in_file fs md_file ls
      else broken_in_file fs md_file ls)"

fun broken_in_files :: "filesystem \<Rightarrow> path list \<Rightarrow> (path \<times> string \<times> path) list" where
  "broken_in_files fs [] = []"
| "broken_in_files fs (md_file # fl) =
     (let content = read_text fs md_file;
          base_dir = parent fs md_file
      in broken_in_file fs md_file (extract_internal_links fs content base_dir)
         @ broken_in_files fs fl)"

definition find_broken_links :: "filesystem \<Rightarrow> path \<Rightarrow> (path \<times> string \<times> path) list" where
  "find_broken_links fs skill_root = broken_in_files fs (collect_all_md_files fs skill_root)"

text \<open>
  Two markdown contents with the same two links, on one line and on two lines, and a
  skill directory \<open>/skill\<close> that holds the one file \<open>SKILL.md\<close> with a given content, on a
  file system without symbolic links. The operator \<open>/\<close> and \<open>Path.resolve\<close> are given for
  link targets that are plain file names, without \<open>.\<close>, \<open>..\<close> or empty segments.
\<close>

definition links_one_line :: string where
  "links_one_line = ''[a](SKILL.md#top) [b](missing.md)''"

definition links_two_lines :: string where
  "links_two_lines = ''[a](SKILL.md#top)'' @ [newline] @ ''[b](missing.md)''"

definition posix_join :: "path \<Rightarrow> string \<Rightarrow> path" where
  "posix_join a b = (if startswith b ''/'' then b else a @ ''/'' @ b)"

definition posix_parent :: "path \<Rightarrow> path" where
  "posix_parent p = rev (drop 1 (dropWhile (\<lambda>c. c \<noteq> CHR ''/'') (rev p)))"

definition one_file_skill :: "string \<Rightarrow> filesystem" where
  "one_file_skill content =
     \<lparr>path_exists = (\<lambda>p. p = ''/skill'' \<or> p = ''/skill/SKILL.md''),
      read_text = (\<lambda>p. content),
      rglob_md = (\<lambda>p. []),
      resolve = (\<lambda>p. p),
      joinpath = posix_join,
      parent = posix_parent\<rparr>"

section \<open>Properties of the resolver\<close>

lemma log_fields [simp]:
  "imageio_import (log ev w) = imageio_import w"
  "get_ffmpeg_exe (log ev w) = get_ffmpeg_exe w"
  "which (log ev w) = which w"
  "trace (log ev w) = trace w @ [ev]"
  by (simp_all add: log_def)

text \<open>
  C1. When \<open>imageio_ffmpeg\<close> imports and \<open>get_ffmpeg_exe()\<close> returns a non-empty path
  \<open>p\<close>, \<open>get_ffmpeg_path\<close> returns exactly \<open>p\<close>, whatever \<open>shutil.which\<close> would answer,
  and it performs the provider import and call only: \<open>shutil\<close> is neither imported nor
  called.
\<close>

theorem provider_path_wins:
  assumes "imageio_import w = None" and "get_ffmpeg_exe w = Inr (PyStr p)" and "p \<noteq> []"
  shows "fst (get_ffmpeg_path w) = Inr (PyStr p)
       \<and> (\<forall>wh. fst (get_ffmpeg_path (w\<lparr>which := wh\<rparr>)) = Inr (PyStr p))
       \<and> consulted w (snd (get_ffmpeg_path w)) = [Import ''imageio_ffmpeg'', Call_get_ffmpeg_exe]
       \<and> (\<forall>name. Call_which name \<notin> set (consulted w (snd (get_ffmpeg_path w))))"
  using assms by (simp add: get_ffmpeg_path_def consulted_def)

theorem provider_path_wins_witness:
  "fst (get_ffmpeg_path world_provider) = Inr (PyStr ''/fake/path/ffmpeg'')
   \<and> consulted world_provider (snd (get_ffmpeg_path world_provider))
       = [Import ''imageio_ffmpeg'', Call_get_ffmpeg_exe]"
  using provider_path_wins [of world_provider "''/fake/path/ffmpeg''"]
  by (simp add: world_provider_def)

lemma system_fallback_result:
  "fst (system_fallback w) =
     (if truthy (which w ''ffmpeg'') then Inr (which w ''ffmpeg'')
      else Inl (RuntimeError not_found_message))"
  by (simp add: system_fallback_def Let_def)


lemma system_fallback_env:
  "imageio_import (snd (system_fallback w)) = imageio_import w"
  "get_ffmpeg_exe (snd (system_fallback w)) = get_ffmpeg_exe w"
  "which (snd (system_fallback w)) = which w"
  by (simp_all add: system_fallback_def Let_def)

lemma skipped_falls_back:
  assumes "provider_unavailable w \<or> provider_no_path w"
  shows "\<exists>w'. get_ffmpeg_path w = system_fallback w' \<and> which w' = which w
            \<and> (trace w' = trace w @ [Import ''imageio_ffmpeg'']
               \<or> trace w' = trace w @ [Import ''imageio_ffmpeg'', Call_get_ffmpeg_exe])"
proof (cases "imageio_import w")
  case None
  with assms have "get_ffmpeg_path w =
      system_fallback (log Call_get_ffmpeg_exe (log (Import ''imageio_ffmpeg'') w))"
    by (auto simp: get_ffmpeg_path_def provider_unavailable_def provider_no_path_def Let_def
             split: sum.splits)
  then show ?thesis by (intro exI conjI) (assumption, simp_all)
next
  case (Some e)
  with assms have "get_ffmpeg_path w = system_fallback (log (Import ''imageio_ffmpeg'') w)"
    by (auto simp: get_ffmpeg_path_def provider_unavailable_def provider_no_path_def Let_def)
  then show ?thesis by (intro exI conjI) (assumption, simp_all)
qed

lemma skipped_result:
  assumes "provider_unavailable w \<or> provider_no_path w"
  shows "fst (get_ffmpeg_path w) = fst (system_fallback w)"
proof -
  from skipped_falls_back [OF assms] obtain w' where
    "get_ffmpeg_path w = system_fallback w'" and "which w' = which w" by blast
  then show ?thesis by (simp add: system_fallback_result)
qed




text \<open>
  C2. When the provider is absent (the import raises \<open>ImportError\<close>) and the OS search
  resolves \<open>ffmpeg\<close> to a path \<open>q\<close>, \<open>get_ffmpeg_path\<close> returns exactly \<open>q\<close>. A path is
  a non-empty string: \<open>shutil.which\<close> answers \<open>None\<close> or the name it found.
\<close>

theorem system_path_when_provider_absent:
  assumes "imageio_import w = Some (ImportError m)"
      and "which w ''ffmpeg'' = PyStr q" and "q \<noteq> []"
  shows "fst (get_ffmpeg_path w) = Inr (PyStr q)"
proof -
  from assms(1) have "provider_unavailable w \<or> provider_no_path w"
    by (simp add: provider_unavailable_def)
  then have "fst (get_ffmpeg_path w) = fst (system_fallback w)" by (rule skipped_result)
  with assms(2,3) show ?thesis by (simp add: system_fallback_result)
qed

theorem system_path_when_provider_absent_witness:
  "fst (get_ffmpeg_path world_system) = Inr (PyStr ''/usr/bin/ffmpeg'')"
  using system_path_when_provider_absent
    [of world_system "''No module named imageio_ffmpeg''" "''/usr/bin/ffmpeg''"]
  by (simp add: world_system_def)








lemma get_ffmpeg_path_returns_truthy:
  assumes "fst (get_ffmpeg_path w) = Inr v"
  shows "truthy v"
  using assms
  by (auto simp: get_ffmpeg_path_def system_fallback_def Let_def
           split: option.splits sum.splits if_splits)

text \<open>
  C5. \<open>main\<close> returns 0 exactly when \<open>get_ffmpeg_path\<close> returns a path, and then it has
  printed that path and a newline to standard output. It returns 1 exactly when
  \<open>get_ffmpeg_path\<close> raises \<open>RuntimeError\<close>, and then it has printed the error's message and
  a newline to standard error; this is what happens when both strategies yield nothing,
  with the remediation message. No failure is turned into success: an exception that is
  not a \<open>RuntimeError\<close> leaves \<open>main\<close> as it is, and nothing is printed to standard output
  unless a path was found.
\<close>

theorem main_exit_code:
  "(\<forall>p w1. get_ffmpeg_path w = (Inr p, w1) \<longrightarrow>
      main w = (Inr 0, log (Print_stdout (py_str p @ [newline])) w1))
 \<and> (\<forall>m w1. get_ffmpeg_path w = (Inl (RuntimeError m), w1) \<longrightarrow>
      main w = (Inr 1, log (Print_stderr (m @ [newline])) w1))
 \<and> (fst (main w) = Inr 0 \<longleftrightarrow> (\<exists>p. fst (get_ffmpeg_path w) = Inr p))
 \<and> (fst (main w) = Inr 1 \<longleftrightarrow> (\<exists>m. fst (get_ffmpeg_path w) = Inl (RuntimeError m)))
 \<and> (\<forall>e. fst (main w) = Inl e \<longleftrightarrow>
      (fst (get_ffmpeg_path w) = Inl e \<and> (\<forall>m. e \<noteq> RuntimeError m)))
 \<and> ((provider_unavailable w \<or> provider_no_path w) \<and> \<not> truthy (which w ''ffmpeg'') \<longrightarrow>
      fst (main w) = Inr 1
      \<and> trace (snd (main w)) =
          trace (snd (get_ffmpeg_path w)) @ [Print_stderr (not_found_message @ [newline])])"
proof -
  obtain r w1 where g: "get_ffmpeg_path w = (r, w1)" by (cases "get_ffmpeg_path w")
  have a: "\<forall>p w1. get_ffmpeg_path w = (Inr p, w1) \<longrightarrow>
      main w = (Inr 0, log (Print_stdout (py_str p @ [newline])) w1)"
    by (simp add: main_def)
  have b: "\<forall>m w1. get_ffmpeg_path w = (Inl (RuntimeError m), w1) \<longrightarrow>
      main w = (Inr 1, log (Print_stderr (m @ [newline])) w1)"
    by (simp add: main_def)
  have c: "fst (main w) = Inr 0 \<longleftrightarrow> (\<exists>p. fst (get_ffmpeg_path w) = Inr p)"
    by (simp add: main_def g split: sum.splits exn.splits)
  have d: "fst (main w) = Inr 1 \<longleftrightarrow> (\<exists>m. fst (get_ffmpeg_path w) = Inl (RuntimeError m))"
    by (simp add: main_def g split: sum.splits exn.splits)
  have e: "\<forall>e. fst (main w) = Inl e \<longleftrightarrow>
      (fst (get_ffmpeg_path w) = Inl e \<and> (\<forall>m. e \<noteq> RuntimeError m))"
    by (auto simp: main_def g split: sum.splits exn.splits)
  have f: "fst (main w) = Inr 1
      \<and> trace (snd (main w)) =
          trace (snd (get_ffmpeg_path w)) @ [Print_stderr (not_found_message @ [newline])]"
    if skip: "provider_unavailable w \<or> provider_no_path w"
      and none: "\<not> truthy (which w ''ffmpeg'')"
  proof -
    from skip have "fst (get_ffmpeg_path w) = fst (system_fallback w)"
      by (rule skipped_result)
    with none g have "r = Inl (RuntimeError not_found_message)"
      by (simp add: system_fallback_result)
    with g show ?thesis by (simp add: main_def)
  qed
  from a b c d e f show ?thesis by blast
qed

theorem main_exit_code_witness:
  "fst (main world_provider) = Inr 0
   \<and> trace (snd (main world_provider)) =
       [Import ''imageio_ffmpeg'', Call_get_ffmpeg_exe,
        Print_stdout (''/fake/path/ffmpeg'' @ [newline])]
   \<and> fst (main world_nothing) = Inr 1
   \<and> trace (snd (main world_nothing)) =
       [Import ''imageio_ffmpeg'', Import ''shutil'', Call_which ''ffmpeg'',
        Print_stderr (not_found_message @ [newline])]"
proof -
  have p: "get_ffmpeg_path world_provider =
      (Inr (PyStr ''/fake/path/ffmpeg''),
       world_provider\<lparr>trace := [Import ''imageio_ffmpeg'', Call_get_ffmpeg_exe]\<rparr>)"
    by (simp add: get_ffmpeg_path_def world_provider_def log_def)
  have n: "get_ffmpeg_path world_nothing =
      (Inl (RuntimeError not_found_message),
       world_nothing\<lparr>trace := [Import ''imageio_ffmpeg'', Import ''shutil'',
                                Call_which ''ffmpeg'']\<rparr>)"
    by (simp add: get_ffmpeg_path_def system_fallback_def world_nothing_def log_def)
  from main_exit_code [of world_provider] p
  have "main world_provider =
      (Inr 0, log (Print_stdout (py_str (PyStr ''/fake/path/ffmpeg'') @ [newline]))
        (world_provider\<lparr>trace := [Import ''imageio_ffmpeg'', Call_get_ffmpeg_exe]\<rparr>))"
    by blast
  moreover from main_exit_code [of world_nothing] n
  have "main world_nothing =
      (Inr 1, log (Print_stderr (not_found_message @ [newline]))
        (world_nothing\<lparr>trace := [Import ''imageio_ffmpeg'', Import ''shutil'',
                                 Call_which ''ffmpeg'']\<rparr>))"
    by blast
  ultimately show ?thesis by simp
qed

text \<open>
  C6. Whenever \<open>get_ffmpeg_path\<close> returns a value rather than raising, the value is a
  string and the string is not empty.
\<close>

theorem returned_path_non_empty:
  assumes "fst (get_ffmpeg_path w) = Inr v"
  shows "\<exists>s. v = PyStr s \<and> s \<noteq> []"
proof -
  from assms have "truthy v" by (rule get_ffmpeg_path_returns_truthy)
  then show ?thesis by (cases v) simp_all
qed

theorem returned_path_non_empty_witness:
  "\<exists>s. PyStr ''/usr/bin/ffmpeg'' = PyStr s \<and> s \<noteq> []"
proof -
  have "fst (get_ffmpeg_path world_system) = Inr (PyStr ''/usr/bin/ffmpeg'')"
    by (simp add: get_ffmpeg_path_def system_fallback_def world_system_def log_def)
  then show ?thesis by (rule returned_path_non_empty)
qed

section \<open>Properties of the validation suites\<close>

lemma set_strip_chars: "set (strip_chars P s) \<subseteq> set s"
proof -
  have "set (dropWhile P (rev (dropWhile P s))) \<subseteq> set (rev (dropWhile P s))"
    by (auto dest: set_dropWhileD)
  also have "\<dots> \<subseteq> set s" by (auto dest: set_dropWhileD)
  finally show ?thesis by (simp add: strip_chars_def)
qed

lemma strip_chars_id:
  assumes "\<forall>c \<in> set s. \<not> P c"
  shows "strip_chars P s = s"
proof -
  from assms have "dropWhile P s = s" by (cases s) simp_all
  moreover from assms have "dropWhile P (rev s) = rev s" by (cases "rev s") auto
  ultimately show ?thesis by (simp add: strip_chars_def)
qed

lemma lower_char_name_char: "name_char c \<Longrightarrow> lower_char c = c"
  by (auto simp: name_char_def lower_char_def Let_def)

lemma lower_name_chars:
  assumes "list_all name_char s"
  shows "lower s = s"
  using assms by (induction s) (simp_all add: lower_def lower_char_name_char)

lemma name_pattern_match_no_newline:
  assumes "newline \<notin> set name"
  shows "name_pattern_match name \<longleftrightarrow> name \<noteq> [] \<and> list_all name_char name"
proof (cases "name = []")
  case True
  then show ?thesis by (simp add: name_pattern_match_def)
next
  case False
  with assms have "last name \<noteq> newline" using last_in_set by metis
  then show ?thesis by (simp add: name_pattern_match_def)
qed

lemma startswith_hyphen: "startswith s ''-'' \<longleftrightarrow> s \<noteq> [] \<and> hd s = CHR ''-''"
  by (cases s) auto

lemma endswith_hyphen: "endswith s ''-'' \<longleftrightarrow> s \<noteq> [] \<and> last s = CHR ''-''"
  by (simp add: endswith_def startswith_hyphen hd_rev)

text \<open>
  C8. The name-format check accepts more narrowly than the three words lowercase,
  hyphenated, no consecutive hyphens say. It accepts a name exactly when the name is not
  empty, is written with lowercase letters, digits and hyphens only, has no two hyphens
  in a row, and neither starts nor ends with a hyphen. The name is what is left of the
  captured text, which \<open>.+\<close> keeps free of newlines, once white space and quotes are
  stripped from its ends.
\<close>

theorem name_format_accepts_iff:
  assumes "newline \<notin> set g"
  shows "test_skill_name_format (Some g) = Passed \<longleftrightarrow>
     (let name = strip_quotes (strip g) in
      name \<noteq> [] \<and> list_all name_char name \<and> \<not> py_in ''--'' name
      \<and> hd name \<noteq> CHR ''-'' \<and> last name \<noteq> CHR ''-'')"
proof -
  define name where "name = strip_quotes (strip g)"
  have "set name \<subseteq> set g"
    unfolding name_def strip_quotes_def strip_def
    using set_strip_chars [of _ "strip_chars is_space g"] set_strip_chars [of is_space g]
    by blast
  with assms have nl: "newline \<notin> set name" by blast
  have "test_skill_name_format (Some g) = Passed \<longleftrightarrow>
      name = lower name \<and> \<not> py_in ''--'' name \<and> \<not> startswith name ''-''
      \<and> \<not> endswith name ''-'' \<and> name_pattern_match name"
    by (simp add: test_skill_name_format_def name_def [symmetric] Let_def)
  also have "\<dots> \<longleftrightarrow> name \<noteq> [] \<and> list_all name_char name \<and> \<not> py_in ''--'' name
      \<and> hd name \<noteq> CHR ''-'' \<and> last name \<noteq> CHR ''-''"
    using lower_name_chars [of name]
    by (auto simp: name_pattern_match_no_newline [OF nl] startswith_hyphen endswith_hyphen)
  finally show ?thesis by (simp add: name_def [symmetric] Let_def)
qed

theorem name_format_accepts_iff_witness:
  "newline \<notin> set ''media-assistant''
   \<and> test_skill_name_format (Some ''media-assistant'') = Passed"
proof -
  have nl: "newline \<notin> set ''media-assistant''" by (simp add: newline_def)
  have "strip_quotes (strip ''media-assistant'') = ''media-assistant''"
    by (simp add: strip_quotes_def strip_def strip_chars_def is_space_def)
  with name_format_accepts_iff [OF nl] nl show ?thesis
    by (simp add: name_char_def)
qed

text \<open>
  The three words alone do not decide acceptance (C8 as first stated): the name \<open>-a\<close> is
  lowercase, is written with a letter and a hyphen, and has no two hyphens in a row, yet
  the test stops at the assertion that a name must not start with a hyphen.
\<close>

theorem name_format_leading_hyphen:
  "spec_name_format ''-a'' \<and> CHR ''-'' \<in> set ''-a''
   \<and> test_skill_name_format (Some ''-a'') = AssertionError ''Name must not start with hyphen''"
  by (simp add: spec_name_format_def test_skill_name_format_def name_char_def lower_def
        lower_char_def strip_quotes_def strip_def strip_chars_def is_space_def)

text \<open>
  C9. \<open>_find_broken_links\<close> does not report every broken internal link. A link with a
  \<open>#fragment\<close> makes the pattern run to the last closing parenthesis of its line, so a
  link that follows it on the same line is never extracted: with \<open>missing.md\<close> absent,
  the file \<open>[a](SKILL.md#top) [b](missing.md)\<close> (\<open>links_one_line\<close>) yields no broken
  link, while the same two links on two lines (\<open>links_two_lines\<close>) yield the broken
  link to \<open>missing.md\<close>.
\<close>

theorem find_broken_links_misses_same_line:
  "find_broken_links (one_file_skill links_one_line) ''/skill'' = []
   \<and> find_broken_links (one_file_skill links_two_lines) ''/skill''
       = [(''/skill/SKILL.md'', ''missing.md'', ''/skill/missing.md'')]"
proof -
  have one_line: "finditer links_one_line = [(''a'', ''SKILL.md'')]"
    by code_simp
  have two_lines: "finditer links_two_lines = [(''a'', ''SKILL.md''), (''b'', ''missing.md'')]"
    by code_simp
  have files: "collect_all_md_files (one_file_skill content) ''/skill'' = [''/skill/SKILL.md'']"
    for content
    by (simp add: collect_all_md_files_def one_file_skill_def posix_join_def)
  have dir: "posix_parent ''/skill/SKILL.md'' = ''/skill''"
    by (simp add: posix_parent_def)
  have skill: "strip ''SKILL.md'' = ''SKILL.md''"
    by (simp add: strip_def strip_chars_def is_space_def)
  have missing: "strip ''missing.md'' = ''missing.md''"
    by (simp add: strip_def strip_chars_def is_space_def)
  have "find_broken_links (one_file_skill links_one_line) ''/skill'' = []"
    by (simp add: find_broken_links_def files extract_internal_links_def)
       (simp add: one_file_skill_def dir skill is_external_def posix_join_def one_line Let_def)
  moreover have "find_broken_links (one_file_skill links_two_lines) ''/skill''
       = [(''/skill/SKILL.md'', ''missing.md'', ''/skill/missing.md'')]"
    by (simp add: find_broken_links_def files extract_internal_links_def)
       (simp add: one_file_skill_def dir skill missing is_external_def posix_join_def
             two_lines Let_def)
  ultimately show ?thesis by simp
qed

text \<open>
  C10. The two suites bound the description differently. The media-assistant test passes
  exactly when the description, stripped of white space and quotes at its ends, has
  between 1 and 1024 characters, so only if it has at most 1024. The rust-ffmpeg test
  passes for every string description of fewer than 4096 characters, and for no longer
  one. A description of 1025 characters is refused by the first and accepted by the
  second.
\<close>

theorem description_length_limits:
  "(test_skill_description_non_empty (Some g) = Passed \<longleftrightarrow>
      0 < length (strip_quotes (strip g)) \<and> length (strip_quotes (strip g)) \<le> 1024)
 \<and> (skill_frontmatter ''description'' = Some (YStr d) \<longrightarrow>
      (test_description_length_reasonable skill_frontmatter = Passed \<longleftrightarrow> length d < 4096))
 \<and> test_skill_description_non_empty (Some (replicate 1025 (CHR ''a'')))
      = AssertionError ''Description must be max 1024 characters''
 \<and> test_description_length_reasonable [''description'' \<mapsto> YStr (replicate 1025 (CHR ''a''))]
      = Passed"
proof -
  have a: "test_skill_description_non_empty (Some g) = Passed \<longleftrightarrow>
      0 < length (strip_quotes (strip g)) \<and> length (strip_quotes (strip g)) \<le> 1024"
    by (simp add: test_skill_description_non_empty_def Let_def)
  have b: "test_description_length_reasonable skill_frontmatter = Passed \<longleftrightarrow> length d < 4096"
    if "skill_frontmatter ''description'' = Some (YStr d)"
    using that by (simp add: test_description_length_reasonable_def)
  have "strip (replicate 1025 (CHR ''a'')) = replicate 1025 (CHR ''a'')"
    unfolding strip_def by (rule strip_chars_id) (simp add: is_space_def)
  moreover have "strip_quotes (replicate 1025 (CHR ''a'')) = replicate 1025 (CHR ''a'')"
    unfolding strip_quotes_def by (rule strip_chars_id) simp
  ultimately have c: "test_skill_description_non_empty (Some (replicate 1025 (CHR ''a'')))
      = AssertionError ''Description must be max 1024 characters''"
    by (simp add: test_skill_description_non_empty_def)
  have d: "test_description_length_reasonable
      [''description'' \<mapsto> YStr (replicate 1025 (CHR ''a''))] = Passed"
    by (simp add: test_description_length_reasonable_def)
  from a b c d show ?thesis by blast
qed

theorem description_length_limits_witness:
  "test_skill_description_non_empty (Some ''Media tools'') = Passed
   \<and> test_description_length_reasonable [''description'' \<mapsto> YStr ''Media tools''] = Passed
   \<and> test_description_length_reasonable
       [''description'' \<mapsto> YStr (replicate 4096 (CHR ''a''))] \<noteq> Passed"
proof -
  have "strip_quotes (strip ''Media tools'') = ''Media tools''"
    by (simp add: strip_quotes_def strip_def strip_chars_def is_space_def)
  then show ?thesis
    using description_length_limits [of "''Media tools''"
            "[''description'' \<mapsto> YStr ''Media tools'']" "''Media tools''"]
          description_length_limits [of "''Media tools''"
            "[''description'' \<mapsto> YStr (replicate 4096 (CHR ''a''))]"
            "replicate 4096 (CHR ''a'')"]
    by simp
qed

end
